theory Spec2Isabelle
  imports Complex_Main "HOL-Library.Word"
begin

section \<open>The data object library\<close>

text \<open>
  The C++ types of the fields. \<open>int\<close> is a 32-bit two's complement integer, read with
  \<open>sint\<close>. \<open>float\<close> is an IEEE-754 binary32 value, kept as its bit pattern: one sign
  bit, eight exponent bits, 23 fraction bits. \<open>std::string\<close> is a sequence of bytes.
\<close>

type_synonym cxx_int = "32 word"
type_synonym cxx_float = "32 word"

record StringObject =
  strData :: string
  encoding :: string

record IntegerObject =
  intValue :: cxx_int
  width :: cxx_int

record FloatObject =
  floatValue :: cxx_float
  floatType :: string

text \<open>The constructors copy their arguments into the members, in declaration order.\<close>

definition StringObject_new :: "string \<Rightarrow> string \<Rightarrow> StringObject" where
  "StringObject_new s e = \<lparr>strData = s, encoding = e\<rparr>"

definition IntegerObject_new :: "cxx_int \<Rightarrow> cxx_int \<Rightarrow> IntegerObject" where
  "IntegerObject_new i w = \<lparr>intValue = i, width = w\<rparr>"

definition FloatObject_new :: "cxx_float \<Rightarrow> string \<Rightarrow> FloatObject" where
  "FloatObject_new f t = \<lparr>floatValue = f, floatType = t\<rparr>"

text \<open>The public const accessors return the members by value.\<close>

definition getStringData :: "StringObject \<Rightarrow> string" where
  "getStringData d = strData d"

definition getEncoding :: "StringObject \<Rightarrow> string" where
  "getEncoding d = encoding d"

definition getIntValue :: "IntegerObject \<Rightarrow> cxx_int" where
  "getIntValue d = intValue d"

definition getWidthBits :: "IntegerObject \<Rightarrow> cxx_int" where
  "getWidthBits d = width d"

definition getFloatValue :: "FloatObject \<Rightarrow> cxx_float" where
  "getFloatValue d = floatValue d"

definition getFloatType :: "FloatObject \<Rightarrow> string" where
  "getFloatType d = floatType d"

text \<open>
  \<open>DataObject\<close> is abstract (\<open>accept\<close> is pure virtual) and has exactly three derived
  classes, so the dynamic type of an object behind a \<open>DataObject\<close> pointer is one of three
  constructors.
\<close>

datatype DataObject =
  StringObj StringObject
| IntegerObj IntegerObject
| FloatObj FloatObject

section \<open>The visitor base class\<close>

text \<open>
  A visit function receives the data object by const reference and runs on the visitor it
  belongs to. It can read the object, read and change its own visitor's members, read
  and change state outside the visitor that it can reach (static data members of its
  class, globals; \<open>statics\<close> below, of a type \<open>'g\<close>), and write text to the standard
  output. It has no return value; it ends by returning or by throwing an exception, which
  is kept by its description. So a visit function is modelled as a function from the
  object, the members and the statics before the call to what holds after it. A visit
  function that does not terminate is not modelled, and neither is memory exhaustion in
  the allocations.
\<close>

datatype completion = Returns | Throws string

record ('s, 'g) visit_result =
  members_after :: 's
  statics_after :: 'g
  written_text :: string
  completes :: completion

type_synonym ('d, 's, 'g) visit_fn = "'d \<Rightarrow> 's \<Rightarrow> 'g \<Rightarrow> ('s, 'g) visit_result"

text \<open>
  A visitor instance is its three virtual functions (what the vtable of its dynamic class
  holds) and its members, of a type \<open>'s\<close> that the derived class chooses.
\<close>

record ('s, 'g) DataObjectVisitor =
  visit_StringObject :: "(StringObject, 's, 'g) visit_fn"
  visit_IntegerObject :: "(IntegerObject, 's, 'g) visit_fn"
  visit_FloatObject :: "(FloatObject, 's, 'g) visit_fn"
  members :: 's

text \<open>
  A visit function that returns and uses nothing but the object and its own visitor's
  members is given by the members after the call and the text written, as a function of
  the object and the members before it. \<open>plain\<close> makes it a visit function: the statics
  stay as they are and the call returns. All visit functions of the program are of this
  form.
\<close>

type_synonym ('d, 's) plain_visit_fn = "'d \<Rightarrow> 's \<Rightarrow> 's \<times> string"

definition plain :: "('d, 's) plain_visit_fn \<Rightarrow> ('d, 's, 'g) visit_fn" where
  "plain f data m g =
     \<lparr>members_after = fst (f data m), statics_after = g,
      written_text = snd (f data m), completes = Returns\<rparr>"

text \<open>The three visit functions of the base class have the empty body \<open>{}\<close>.\<close>

definition DataObjectVisitor_visit :: "('d, 's) plain_visit_fn" where
  "DataObjectVisitor_visit data m = (m, [])"

definition DataObjectVisitor_new :: "'s \<Rightarrow> ('s, 'g) DataObjectVisitor" where
  "DataObjectVisitor_new m =
     \<lparr>visit_StringObject = plain DataObjectVisitor_visit,
      visit_IntegerObject = plain DataObjectVisitor_visit,
      visit_FloatObject = plain DataObjectVisitor_visit,
      members = m\<rparr>"

section \<open>The program state\<close>

text \<open>
  Data objects and visitor instances have identity: they are referred to through
  references and \<open>unique_ptr\<close>s. The state holds the data objects and the visitor instances
  in two stores, addressed by position, the statics, and the text written to the standard
  output so far. The component \<open>calls\<close> is an observer's log, not program state: every entry into
  a visit function is recorded there, with the visitor it was called on and the object it
  was given.
\<close>

type_synonym addr = nat

datatype visit_entry =
  Entered_visit_StringObject addr StringObject
| Entered_visit_IntegerObject addr IntegerObject
| Entered_visit_FloatObject addr FloatObject

record ('s, 'g) world =
  objects :: "DataObject list"
  visitors :: "('s, 'g) DataObjectVisitor list"
  statics :: 'g
  stdout :: string
  calls :: "visit_entry list"

text \<open>
  A call ends in a state (\<open>Inr\<close>) when it returns. It ends in an error (\<open>Inl\<close>) when an
  exception leaves it, which carries the state at that point, or when it uses a reference
  or pointer that does not refer to a live object, which has no defined behaviour in C++.
\<close>

datatype 'w error = Invalid_object addr | Invalid_visitor addr | Thrown string 'w

text \<open>How a call ends after a visit function has left the state \<open>w\<close>.\<close>

definition finish :: "completion \<Rightarrow> 'w \<Rightarrow> 'w error + 'w" where
  "finish c w = (case c of Returns \<Rightarrow> Inr w | Throws e \<Rightarrow> Inl (Thrown e w))"

text \<open>
  A virtual call of a visit function on the visitor at \<open>vis\<close>. \<open>fn\<close> selects the
  function in the visitor's dynamic class, already applied to the data object. The new
  members are stored into the visitor, the statics are replaced, the text is appended to
  the standard output, and the entry is added to the log. The call ends as the visit
  function ends: there is no handler for exceptions around it.
\<close>

definition call_visit ::
  "addr \<Rightarrow> visit_entry \<Rightarrow> (('s, 'g) DataObjectVisitor \<Rightarrow> 's \<Rightarrow> 'g \<Rightarrow> ('s, 'g) visit_result) \<Rightarrow>
   ('s, 'g) world \<Rightarrow> ('s, 'g) world error + ('s, 'g) world" where
  "call_visit vis entry fn w =
     (if vis < length (visitors w) then
        (let v = visitors w ! vis;
             r = fn v (members v) (statics w)
         in finish (completes r)
              (w\<lparr>visitors := (visitors w)[vis := v\<lparr>members := members_after r\<rparr>],
                 statics := statics_after r,
                 stdout := stdout w @ written_text r,
                 calls := calls w @ [entry]\<rparr>))
      else Inl (Invalid_visitor vis))"

text \<open>The three overloads of \<open>visit\<close>, called through a reference to the base class.\<close>

definition virtual_visit_StringObject :: "addr \<Rightarrow> StringObject \<Rightarrow> ('s, 'g) world \<Rightarrow> ('s, 'g) world error + ('s, 'g) world" where
  "virtual_visit_StringObject vis data w =
     call_visit vis (Entered_visit_StringObject vis data) (\<lambda>v. visit_StringObject v data) w"

definition virtual_visit_IntegerObject :: "addr \<Rightarrow> IntegerObject \<Rightarrow> ('s, 'g) world \<Rightarrow> ('s, 'g) world error + ('s, 'g) world" where
  "virtual_visit_IntegerObject vis data w =
     call_visit vis (Entered_visit_IntegerObject vis data) (\<lambda>v. visit_IntegerObject v data) w"

definition virtual_visit_FloatObject :: "addr \<Rightarrow> FloatObject \<Rightarrow> ('s, 'g) world \<Rightarrow> ('s, 'g) world error + ('s, 'g) world" where
  "virtual_visit_FloatObject vis data w =
     call_visit vis (Entered_visit_FloatObject vis data) (\<lambda>v. visit_FloatObject v data) w"

section \<open>The acceptance functions\<close>

text \<open>
  Each derived class implements \<open>accept\<close> as \<open>visitor.visit(*this)\<close>. The static type of
  \<open>*this\<close> is the class itself, so the call is bound, where it is written, to the
  overload for that class. \<open>accept\<close> has no \<open>try\<close> block and is not \<open>noexcept\<close>: it ends
  as the call of \<open>visit\<close> ends.
\<close>

definition StringObject_accept :: "StringObject \<Rightarrow> addr \<Rightarrow> ('s, 'g) world \<Rightarrow> ('s, 'g) world error + ('s, 'g) world" where
  "StringObject_accept this visitor w = virtual_visit_StringObject visitor this w"

definition IntegerObject_accept :: "IntegerObject \<Rightarrow> addr \<Rightarrow> ('s, 'g) world \<Rightarrow> ('s, 'g) world error + ('s, 'g) world" where
  "IntegerObject_accept this visitor w = virtual_visit_IntegerObject visitor this w"

definition FloatObject_accept :: "FloatObject \<Rightarrow> addr \<Rightarrow> ('s, 'g) world \<Rightarrow> ('s, 'g) world error + ('s, 'g) world" where
  "FloatObject_accept this visitor w = virtual_visit_FloatObject visitor this w"

text \<open>
  The virtual call \<open>obj->accept(visitor)\<close> through a pointer to \<open>const DataObject\<close>: the
  override of the object's dynamic class runs.
\<close>

definition DataObject_accept :: "addr \<Rightarrow> addr \<Rightarrow> ('s, 'g) world \<Rightarrow> ('s, 'g) world error + ('s, 'g) world" where
  "DataObject_accept obj vis w =
     (if obj < length (objects w) then
        (case objects w ! obj of
           StringObj d \<Rightarrow> StringObject_accept d vis w
         | IntegerObj d \<Rightarrow> IntegerObject_accept d vis w
         | FloatObj d \<Rightarrow> FloatObject_accept d vis w)
      else Inl (Invalid_object obj))"

section \<open>The C library's formatted output\<close>

text \<open>
  \<open>printf\<close> is not part of the program; the conversions the renderer uses are modelled as
  the C standard describes them. \<open>%s\<close> is given \<open>c_str()\<close>, so it writes the bytes of the
  string up to its first zero byte. \<open>%d\<close> writes a signed decimal numeral. \<open>%f\<close> is
  given the \<open>float\<close> promoted to \<open>double\<close> (the same value) and writes it in fixed
  notation with six digits after the point, rounded from the exact value to the nearest,
  a tie to the even digit (the default rounding mode). An infinity or a NaN is written as
  \<open>inf\<close> or \<open>nan\<close>; the standard also allows \<open>infinity\<close> and a NaN with a payload in
  parentheses, in every style without a point and without digits.
\<close>

definition c_str :: "string \<Rightarrow> string" where
  "c_str s = takeWhile (\<lambda>c. c \<noteq> CHR 0x00) s"

fun dec_of_nat :: "nat \<Rightarrow> string" where
  "dec_of_nat n =
     (if n < 10 then [''0123456789'' ! n]
      else dec_of_nat (n div 10) @ [''0123456789'' ! (n mod 10)])"

definition printf_d :: "cxx_int \<Rightarrow> string" where
  "printf_d i =
     (if sint i < 0 then CHR ''-'' # dec_of_nat (nat (- sint i))
      else dec_of_nat (nat (sint i)))"

text \<open>The fields of a binary32 bit pattern.\<close>

definition float_negative :: "cxx_float \<Rightarrow> bool" where
  "float_negative f = (2 ^ 31 \<le> unat f)"

definition float_exponent :: "cxx_float \<Rightarrow> nat" where
  "float_exponent f = unat f div 2 ^ 23 mod 2 ^ 8"

definition float_fraction :: "cxx_float \<Rightarrow> nat" where
  "float_fraction f = unat f mod 2 ^ 23"

definition float_finite :: "cxx_float \<Rightarrow> bool" where
  "float_finite f = (float_exponent f \<noteq> 255)"

text \<open>
  The magnitude of a finite value, as a multiple of 2 to the power -149 (the smallest
  positive binary32 value): subnormal when the exponent field is 0, with the implicit
  leading bit otherwise.
\<close>

definition float_scaled :: "cxx_float \<Rightarrow> nat" where
  "float_scaled f =
     (if float_exponent f = 0 then float_fraction f
      else (2 ^ 23 + float_fraction f) * 2 ^ (float_exponent f - 1))"

definition float_value :: "cxx_float \<Rightarrow> rat" where
  "float_value f =
     (if float_negative f then - 1 else 1) * (of_nat (float_scaled f) / 2 ^ 149)"

definition round_half_even :: "nat \<Rightarrow> nat \<Rightarrow> nat" where
  "round_half_even x d =
     (let q = x div d; r = x mod d
      in if 2 * r < d then q
         else if d < 2 * r then q + 1
         else if even q then q else q + 1)"

definition zero_pad :: "nat \<Rightarrow> string \<Rightarrow> string" where
  "zero_pad k s = replicate (k - length s) (CHR ''0'') @ s"

definition fixed6 :: "nat \<Rightarrow> string" where
  "fixed6 scaled =
     (let n = round_half_even (scaled * 10 ^ 6) (2 ^ 149)
      in dec_of_nat (n div 10 ^ 6) @ ''.'' @ zero_pad 6 (dec_of_nat (n mod 10 ^ 6)))"

definition printf_f :: "cxx_float \<Rightarrow> string" where
  "printf_f f =
     (if float_negative f then ''-'' else []) @
     (if float_finite f then fixed6 (float_scaled f)
      else if float_fraction f = 0 then ''inf'' else ''nan'')"

section \<open>The custom renderer\<close>

text \<open>
  \<open>DataRenderer\<close> has no members of its own and overrides all three visit functions; each
  is one \<open>printf\<close> call on the object's accessors. \<open>printf\<close> throws nothing, and the
  program has no statics.
\<close>

definition DataRenderer_visit_StringObject :: "(StringObject, 's) plain_visit_fn" where
  \<open>DataRenderer_visit_StringObject data m =
     (m, ''String:     "'' @ c_str (getStringData data) @ ''"  ('' @
         c_str (getEncoding data) @ '')\<newline>'')\<close>

definition DataRenderer_visit_IntegerObject :: "(IntegerObject, 's) plain_visit_fn" where
  "DataRenderer_visit_IntegerObject data m =
     (m, ''Integer:    '' @ printf_d (getIntValue data) @ ''  ('' @
         printf_d (getWidthBits data) @ '' bits)\<newline>'')"

definition DataRenderer_visit_FloatObject :: "(FloatObject, 's) plain_visit_fn" where
  "DataRenderer_visit_FloatObject data m =
     (m, ''Float:      '' @ printf_f (getFloatValue data) @ ''  ('' @
         c_str (getFloatType data) @ '')\<newline>'')"

definition DataRenderer_new :: "(unit, unit) DataObjectVisitor" where
  "DataRenderer_new =
     (DataObjectVisitor_new ())
       \<lparr>visit_StringObject := plain DataRenderer_visit_StringObject,
        visit_IntegerObject := plain DataRenderer_visit_IntegerObject,
        visit_FloatObject := plain DataRenderer_visit_FloatObject\<rparr>"

section \<open>The container, its source and the driver\<close>

text \<open>
  \<open>DObjContainer\<close> is a vector of owning pointers to const data objects.
  \<open>make_unique\<close> puts a new object into the store and returns its address.
\<close>

type_synonym DObjContainer = "addr list"

definition make_unique :: "DataObject \<Rightarrow> ('s, 'g) world \<Rightarrow> addr \<times> ('s, 'g) world" where
  "make_unique x w = (length (objects w), w\<lparr>objects := objects w @ [x]\<rparr>)"

text \<open>The literal \<open>3.14f\<close>: the binary32 value nearest to 3.14.\<close>

definition literal_3_14f :: cxx_float where
  "literal_3_14f = 0x4048F5C3"

definition getObjects :: "('s, 'g) world \<Rightarrow> DObjContainer \<times> ('s, 'g) world" where
  "getObjects w =
     (let objCont = [];
          (p1, w1) = make_unique (StringObj (StringObject_new ''Hello'' ''utf-8'')) w;
          objCont = objCont @ [p1];
          (p2, w2) = make_unique (IntegerObj (IntegerObject_new 16 32)) w1;
          objCont = objCont @ [p2];
          (p3, w3) = make_unique (FloatObj (FloatObject_new literal_3_14f ''ieee-754'')) w2;
          objCont = objCont @ [p3]
      in (objCont, w3))"

text \<open>
  The loop of \<open>main\<close>: every object of the container accepts the visitor, in order. An
  exception that leaves a call of \<open>accept\<close> leaves the loop, and any other error ends the
  run.
\<close>

fun accept_each :: "DObjContainer \<Rightarrow> addr \<Rightarrow> ('s, 'g) world \<Rightarrow> ('s, 'g) world error + ('s, 'g) world" where
  "accept_each [] vis w = Inr w"
| "accept_each (obj # rest) vis w =
     (case DataObject_accept obj vis w of
        Inl e \<Rightarrow> Inl e
      | Inr w' \<Rightarrow> accept_each rest vis w')"

text \<open>A visitor declared as a local variable: a new instance in the store.\<close>

definition new_visitor ::
  "('s, 'g) DataObjectVisitor \<Rightarrow> ('s, 'g) world \<Rightarrow> addr \<times> ('s, 'g) world" where
  "new_visitor v w = (length (visitors w), w\<lparr>visitors := visitors w @ [v]\<rparr>)"

text \<open>
  \<open>main\<close> after its first statement, for the container that statement produced: the
  renderer is declared, the loop runs, and 0 is returned. \<open>main\<close> catches nothing, and
  it does not use its arguments \<open>argc\<close> and \<open>argv\<close>.
\<close>

definition main_render ::
  "DObjContainer \<Rightarrow> (unit, unit) world \<Rightarrow> (unit, unit) world error + (int \<times> (unit, unit) world)" where
  "main_render objs w =
     (let (renderer, w1) = new_visitor DataRenderer_new w
      in case accept_each objs renderer w1 of
           Inl e \<Rightarrow> Inl e
         | Inr w2 \<Rightarrow> Inr (0, w2))"

definition main ::
  "(unit, unit) world \<Rightarrow> (unit, unit) world error + (int \<times> (unit, unit) world)" where
  "main w = (let (objs, w1) = getObjects w in main_render objs w1)"

text \<open>The state in which the program starts: nothing allocated, nothing written.\<close>

definition initial_world :: "(unit, unit) world" where
  "initial_world = \<lparr>objects = [], visitors = [], statics = (), stdout = [], calls = []\<rparr>"

section \<open>Notions used in the statements\<close>

text \<open>
  The visit function of a visitor that belongs to the dynamic class of a data object,
  applied to that object, and the log entry of its overload.
\<close>

fun matching_visit ::
  "('s, 'g) DataObjectVisitor \<Rightarrow> DataObject \<Rightarrow> 's \<Rightarrow> 'g \<Rightarrow> ('s, 'g) visit_result" where
  "matching_visit v (StringObj d) = visit_StringObject v d"
| "matching_visit v (IntegerObj d) = visit_IntegerObject v d"
| "matching_visit v (FloatObj d) = visit_FloatObject v d"

fun matching_entry :: "addr \<Rightarrow> DataObject \<Rightarrow> visit_entry" where
  "matching_entry vis (StringObj d) = Entered_visit_StringObject vis d"
| "matching_entry vis (IntegerObj d) = Entered_visit_IntegerObject vis d"
| "matching_entry vis (FloatObj d) = Entered_visit_FloatObject vis d"

text \<open>
  What one run of the matching visit function does, started with the statics \<open>g\<close>: the
  visitor after it, the text it writes, the statics it leaves, and how it ends.
\<close>

definition visited ::
  "('s, 'g) DataObjectVisitor \<Rightarrow> DataObject \<Rightarrow> 'g \<Rightarrow> ('s, 'g) DataObjectVisitor" where
  "visited v x g = v\<lparr>members := members_after (matching_visit v x (members v) g)\<rparr>"

definition written :: "('s, 'g) DataObjectVisitor \<Rightarrow> DataObject \<Rightarrow> 'g \<Rightarrow> string" where
  "written v x g = written_text (matching_visit v x (members v) g)"

definition statics_left :: "('s, 'g) DataObjectVisitor \<Rightarrow> DataObject \<Rightarrow> 'g \<Rightarrow> 'g" where
  "statics_left v x g = statics_after (matching_visit v x (members v) g)"

definition completion_of :: "('s, 'g) DataObjectVisitor \<Rightarrow> DataObject \<Rightarrow> 'g \<Rightarrow> completion" where
  "completion_of v x g = completes (matching_visit v x (members v) g)"

text \<open>
  The state after one run of the visit function of the visitor at \<open>vis\<close> that matches
  the object at \<open>obj\<close>.
\<close>

definition after_matching_visit :: "addr \<Rightarrow> addr \<Rightarrow> ('s, 'g) world \<Rightarrow> ('s, 'g) world" where
  "after_matching_visit obj vis w =
     w\<lparr>visitors := (visitors w)[vis := visited (visitors w ! vis) (objects w ! obj) (statics w)],
       statics := statics_left (visitors w ! vis) (objects w ! obj) (statics w),
       stdout := stdout w @ written (visitors w ! vis) (objects w ! obj) (statics w),
       calls := calls w @ [matching_entry vis (objects w ! obj)]\<rparr>"

text \<open>
  The same for a sequence of objects visited in order, each visit returning: the visitor
  after the visits and the text they write.
\<close>

fun visited_all ::
  "('s, 'g) DataObjectVisitor \<Rightarrow> DataObject list \<Rightarrow> 'g \<Rightarrow> ('s, 'g) DataObjectVisitor" where
  "visited_all v [] g = v"
| "visited_all v (x # xs) g = visited_all (visited v x g) xs (statics_left v x g)"

fun written_all :: "('s, 'g) DataObjectVisitor \<Rightarrow> DataObject list \<Rightarrow> 'g \<Rightarrow> string" where
  "written_all v [] g = []"
| "written_all v (x # xs) g = written v x g @ written_all (visited v x g) xs (statics_left v x g)"

text \<open>
  The kind of a data object, and whether the class of a visitor overrides the visit
  function for a kind: if it does not, the visitor has the base class's function there.
\<close>

datatype kind = String_kind | Integer_kind | Float_kind

fun kind_of :: "DataObject \<Rightarrow> kind" where
  "kind_of (StringObj d) = String_kind"
| "kind_of (IntegerObj d) = Integer_kind"
| "kind_of (FloatObj d) = Float_kind"

fun overrides :: "('s, 'g) DataObjectVisitor \<Rightarrow> kind \<Rightarrow> bool" where
  "overrides v String_kind = (visit_StringObject v \<noteq> plain DataObjectVisitor_visit)"
| "overrides v Integer_kind = (visit_IntegerObject v \<noteq> plain DataObjectVisitor_visit)"
| "overrides v Float_kind = (visit_FloatObject v \<noteq> plain DataObjectVisitor_visit)"

text \<open>
  A visitor whose three visit functions return and use nothing but the object and the
  visitor's own members: no state is shared between two instances of its class.
\<close>

definition is_plain :: "('d, 's, 'g) visit_fn \<Rightarrow> bool" where
  "is_plain f = (\<exists>p. f = plain p)"

definition plain_visitor :: "('s, 'g) DataObjectVisitor \<Rightarrow> bool" where
  "plain_visitor v =
     (is_plain (visit_StringObject v) \<and> is_plain (visit_IntegerObject v) \<and>
      is_plain (visit_FloatObject v))"

text \<open>The objects that the pointers of a container refer to.\<close>

definition pointees :: "('s, 'g) world \<Rightarrow> DObjContainer \<Rightarrow> DataObject list" where
  "pointees w c = map (\<lambda>p. objects w ! p) c"

definition is_digit :: "char \<Rightarrow> bool" where
  "is_digit c = (c \<in> set ''0123456789'')"

text \<open>
  Two output texts are equivalent when they consist of the same words in the same order,
  whatever blanks and line ends separate them, where a word that is a decimal numeral
  counts as the number it denotes (so \<open>3.140000\<close> and \<open>3.14\<close> are the same word).
\<close>

fun words_from :: "string \<Rightarrow> string \<Rightarrow> string list" where
  "words_from cur [] = (if cur = [] then [] else [cur])"
| "words_from cur (c # cs) =
     (if c = CHR '' '' \<or> c = CHR 0x0A
      then (if cur = [] then [] else [cur]) @ words_from [] cs
      else words_from (cur @ [c]) cs)"

definition nat_of_digits :: "string \<Rightarrow> nat" where
  "nat_of_digits s = foldl (\<lambda>n c. 10 * n + (of_char c - 48)) 0 s"

definition numeral_value :: "string \<Rightarrow> rat option" where
  "numeral_value t =
     (let ip = takeWhile (\<lambda>c. c \<noteq> CHR ''.'') t;
          rest = dropWhile (\<lambda>c. c \<noteq> CHR ''.'') t;
          fr = drop 1 rest
      in if ip \<noteq> [] \<and> list_all is_digit ip \<and> list_all is_digit fr \<and> rest \<noteq> [CHR ''.'']
         then Some (of_nat (nat_of_digits ip) + of_nat (nat_of_digits fr) / 10 ^ length fr)
         else None)"

definition word_reading :: "string \<Rightarrow> rat + string" where
  "word_reading t = (case numeral_value t of Some x \<Rightarrow> Inl x | None \<Rightarrow> Inr t)"

definition reading :: "string \<Rightarrow> (rat + string) list" where
  "reading s = map word_reading (words_from [] s)"

definition equivalent_output :: "string \<Rightarrow> string \<Rightarrow> bool" where
  "equivalent_output a b = (reading a = reading b)"

section \<open>Example visitors\<close>

text \<open>
  Three derived visitors that are not part of the program. The comment on
  \<open>DataObject::accept\<close> says that a visitor may be modified by the call, for example to
  count the objects it has processed. \<open>StringCounter\<close> does so in a member: it counts the
  string objects it has visited, and it overrides the visit function for strings only.
  \<open>example_world\<close> holds the three objects of the program and two instances of it.
\<close>

definition StringCounter_visit_StringObject :: "(StringObject, nat) plain_visit_fn" where
  "StringCounter_visit_StringObject data n = (n + 1, [])"

definition StringCounter_new :: "(nat, nat) DataObjectVisitor" where
  "StringCounter_new =
     (DataObjectVisitor_new 0)\<lparr>visit_StringObject := plain StringCounter_visit_StringObject\<rparr>"

definition example_world :: "(nat, nat) world" where
  "example_world =
     \<lparr>objects = [StringObj (StringObject_new ''Hello'' ''utf-8''),
                 IntegerObj (IntegerObject_new 16 32),
                 FloatObj (FloatObject_new literal_3_14f ''ieee-754'')],
      visitors = [StringCounter_new, StringCounter_new],
      statics = 0,
      stdout = [],
      calls = []\<rparr>"

text \<open>
  \<open>SharedCounter\<close> counts in a static data member, which all its instances share: its
  visit function for strings increments the count and writes it on a line.
  \<open>shared_counter_world\<close> holds one string object and two instances, with the count 0.
\<close>

definition SharedCounter_visit_StringObject :: "(StringObject, unit, nat) visit_fn" where
  "SharedCounter_visit_StringObject data m count =
     \<lparr>members_after = m, statics_after = count + 1,
      written_text = dec_of_nat (count + 1) @ ''\<newline>'', completes = Returns\<rparr>"

definition SharedCounter_new :: "(unit, nat) DataObjectVisitor" where
  "SharedCounter_new =
     (DataObjectVisitor_new ())\<lparr>visit_StringObject := SharedCounter_visit_StringObject\<rparr>"

definition shared_counter_world :: "(unit, nat) world" where
  "shared_counter_world =
     \<lparr>objects = [StringObj (StringObject_new ''Hello'' ''utf-8'')],
      visitors = [SharedCounter_new, SharedCounter_new],
      statics = 0,
      stdout = [],
      calls = []\<rparr>"

text \<open>
  \<open>Rejecter\<close> throws from its visit function for strings, before it does anything else.
  \<open>rejecter_world\<close> holds one string object and one instance.
\<close>

definition Rejecter_visit_StringObject :: "(StringObject, unit, unit) visit_fn" where
  "Rejecter_visit_StringObject data m g =
     \<lparr>members_after = m, statics_after = g, written_text = [],
      completes = Throws ''strings are not accepted''\<rparr>"

definition Rejecter_new :: "(unit, unit) DataObjectVisitor" where
  "Rejecter_new =
     (DataObjectVisitor_new ())\<lparr>visit_StringObject := Rejecter_visit_StringObject\<rparr>"

definition rejecter_world :: "(unit, unit) world" where
  "rejecter_world =
     \<lparr>objects = [StringObj (StringObject_new ''Hello'' ''utf-8'')],
      visitors = [Rejecter_new],
      statics = (),
      stdout = [],
      calls = []\<rparr>"

section \<open>The effect of the acceptance functions\<close>

declare dec_of_nat.simps [simp del]

lemma plain_result:
  "members_after (plain f d m g) = fst (f d m)" "statics_after (plain f d m g) = g"
  "written_text (plain f d m g) = snd (f d m)" "completes (plain f d m g) = Returns"
  by (simp_all add: plain_def)

lemma finish_cases:
  "finish Returns w = Inr w" "finish (Throws e) w = Inl (Thrown e w)"
  by (simp_all add: finish_def)

lemma call_visit_live:
  "vis < length (visitors w) \<Longrightarrow>
   call_visit vis entry fn w =
     finish (completes (fn (visitors w ! vis) (members (visitors w ! vis)) (statics w)))
       (w\<lparr>visitors := (visitors w)[vis := (visitors w ! vis)
              \<lparr>members := members_after
                 (fn (visitors w ! vis) (members (visitors w ! vis)) (statics w))\<rparr>],
          statics := statics_after (fn (visitors w ! vis) (members (visitors w ! vis)) (statics w)),
          stdout := stdout w @
            written_text (fn (visitors w ! vis) (members (visitors w ! vis)) (statics w)),
          calls := calls w @ [entry]\<rparr>)"
  by (simp add: call_visit_def Let_def)

lemma accept_live:
  assumes "obj < length (objects w)" and "vis < length (visitors w)"
  shows "DataObject_accept obj vis w =
     finish (completion_of (visitors w ! vis) (objects w ! obj) (statics w))
       (after_matching_visit obj vis w)"
  using assms
  by (cases "objects w ! obj")
     (simp_all add: DataObject_accept_def StringObject_accept_def IntegerObject_accept_def
        FloatObject_accept_def virtual_visit_StringObject_def virtual_visit_IntegerObject_def
        virtual_visit_FloatObject_def call_visit_live after_matching_visit_def visited_def
        written_def statics_left_def completion_of_def)

lemma after_matching_visit_parts:
  "objects (after_matching_visit obj vis w) = objects w"
  "visitors (after_matching_visit obj vis w) =
     (visitors w)[vis := visited (visitors w ! vis) (objects w ! obj) (statics w)]"
  "statics (after_matching_visit obj vis w) =
     statics_left (visitors w ! vis) (objects w ! obj) (statics w)"
  "stdout (after_matching_visit obj vis w) =
     stdout w @ written (visitors w ! vis) (objects w ! obj) (statics w)"
  "calls (after_matching_visit obj vis w) = calls w @ [matching_entry vis (objects w ! obj)]"
  by (simp_all add: after_matching_visit_def)

lemma plain_visitor_completion:
  "plain_visitor v \<Longrightarrow> completion_of v x g = Returns"
  by (cases x) (auto simp add: plain_visitor_def is_plain_def completion_of_def plain_result)

lemma plain_visitor_statics:
  "plain_visitor v \<Longrightarrow> statics_left v x g = g"
  by (cases x) (auto simp add: plain_visitor_def is_plain_def statics_left_def plain_result)

lemma plain_visitor_visited: "plain_visitor (visited v x g) = plain_visitor v"
  by (simp add: plain_visitor_def visited_def)

lemma accept_plain:
  assumes "obj < length (objects w)" and "vis < length (visitors w)"
    and "plain_visitor (visitors w ! vis)"
  shows "DataObject_accept obj vis w = Inr (after_matching_visit obj vis w)"
  using assms by (simp add: accept_live plain_visitor_completion finish_cases)

lemma accept_each_plain:
  assumes "set ptrs \<subseteq> {..<length (objects w)}" and "vis < length (visitors w)"
    and "plain_visitor (visitors w ! vis)"
  shows "accept_each ptrs vis w =
     Inr (w\<lparr>visitors := (visitors w)[vis :=
               visited_all (visitors w ! vis) (pointees w ptrs) (statics w)],
            stdout := stdout w @ written_all (visitors w ! vis) (pointees w ptrs) (statics w),
            calls := calls w @ map (\<lambda>p. matching_entry vis (objects w ! p)) ptrs\<rparr>)"
  using assms
proof (induction ptrs arbitrary: w)
  case Nil
  then show ?case by (simp add: pointees_def)
next
  case (Cons p ps)
  then show ?case
    by (simp add: accept_plain after_matching_visit_def plain_visitor_statics
        plain_visitor_visited pointees_def)
qed

lemma not_overridden_plain:
  assumes "\<not> overrides v (kind_of x)"
  shows "visited v x g = v" "written v x g = []" "statics_left v x g = g"
    "completion_of v x g = Returns"
  using assms
  by (cases x; simp add: visited_def written_def statics_left_def completion_of_def
      plain_result DataObjectVisitor_visit_def)+

lemma plain_visitor_examples:
  "plain_visitor (DataObjectVisitor_new m)" "plain_visitor DataRenderer_new"
  "plain_visitor StringCounter_new"
  by (auto simp add: plain_visitor_def is_plain_def DataObjectVisitor_new_def
      DataRenderer_new_def StringCounter_new_def)

section \<open>Decimal numerals and the fixed notation\<close>

lemma digit_nth: "d < 10 \<Longrightarrow> is_digit (''0123456789'' ! d)"
  unfolding is_digit_def by (rule nth_mem) simp

lemma dec_of_nat_digits: "list_all is_digit (dec_of_nat n)"
proof (induction n rule: dec_of_nat.induct)
  case (1 n)
  show ?case
  proof (cases "n < 10")
    case True
    then show ?thesis by (subst dec_of_nat.simps) (simp add: digit_nth)
  next
    case False
    with 1 show ?thesis by (subst dec_of_nat.simps) (simp add: digit_nth)
  qed
qed

lemma dec_of_nat_nonempty: "dec_of_nat n \<noteq> []"
  by (subst dec_of_nat.simps) simp

lemma dec_of_nat_length: "n < 10 ^ k \<Longrightarrow> 0 < k \<Longrightarrow> length (dec_of_nat n) \<le> k"
proof (induction n arbitrary: k rule: dec_of_nat.induct)
  case (1 n)
  show ?case
  proof (cases "n < 10")
    case True
    with 1(3) show ?thesis by (subst dec_of_nat.simps) simp
  next
    case False
    obtain j where k: "k = Suc j" using 1(3) by (cases k) auto
    from False 1(2) k have "0 < j" by (cases j) auto
    moreover from 1(2) k have "n div 10 < 10 ^ j"
      by (simp add: less_mult_imp_div_less mult.commute)
    ultimately have "length (dec_of_nat (n div 10)) \<le> j" using 1(1)[OF False] by blast
    with False k show ?thesis by (subst dec_of_nat.simps) simp
  qed
qed

lemma is_digit_zero: "is_digit (CHR ''0'')"
  by (simp add: is_digit_def)

lemma zero_pad_digits: "list_all is_digit s \<Longrightarrow> list_all is_digit (zero_pad k s)"
  by (auto simp add: zero_pad_def list_all_iff is_digit_zero)

lemma zero_pad_length: "length s \<le> k \<Longrightarrow> length (zero_pad k s) = k"
  by (simp add: zero_pad_def)

lemma fixed6_shape:
  "\<exists>ip fr. fixed6 s = ip @ ''.'' @ fr \<and> ip \<noteq> [] \<and> length fr = 6 \<and>
     list_all is_digit ip \<and> list_all is_digit fr"
proof -
  define n where "n = round_half_even (s * 10 ^ 6) (2 ^ 149)"
  define ip where "ip = dec_of_nat (n div 10 ^ 6)"
  define fr where "fr = zero_pad 6 (dec_of_nat (n mod 10 ^ 6))"
  have "n mod 10 ^ 6 < 10 ^ 6" by simp
  then have "length (dec_of_nat (n mod 10 ^ 6)) \<le> 6"
    by (rule dec_of_nat_length) simp
  then have 1: "length fr = 6" unfolding fr_def by (rule zero_pad_length)
  have 2: "list_all is_digit fr"
    unfolding fr_def by (rule zero_pad_digits) (rule dec_of_nat_digits)
  have 3: "fixed6 s = ip @ ''.'' @ fr"
    unfolding fixed6_def Let_def n_def ip_def fr_def by (rule refl)
  have 4: "ip \<noteq> []" unfolding ip_def by (rule dec_of_nat_nonempty)
  have 5: "list_all is_digit ip" unfolding ip_def by (rule dec_of_nat_digits)
  from 1 2 3 4 5 show ?thesis by blast
qed

lemma printf_f_finite_shape:
  assumes "float_finite f"
  shows "\<exists>ip fr. printf_f f = (if float_negative f then ''-'' else []) @ ip @ ''.'' @ fr \<and>
           ip \<noteq> [] \<and> length fr = 6 \<and> list_all is_digit ip \<and> list_all is_digit fr"
  using assms fixed6_shape [of "float_scaled f"] by (simp add: printf_f_def)

section \<open>The literal 3.14f\<close>

lemma literal_fields:
  "float_negative literal_3_14f = False" "float_exponent literal_3_14f = 128"
  "float_fraction literal_3_14f = 4781507" "float_finite literal_3_14f"
  by (simp_all add: literal_3_14f_def float_negative_def float_exponent_def
      float_fraction_def float_finite_def)

lemma literal_scaled: "float_scaled literal_3_14f = 13170115 * 2 ^ 127"
  by (simp add: float_scaled_def literal_fields)

lemma literal_value: "float_value literal_3_14f = 13170115 / 4194304"
  by (simp add: float_value_def literal_scaled literal_fields)

lemma dec_3: "dec_of_nat 3 = ''3''"
  by (simp add: dec_of_nat.simps)

lemma dec_140000: "dec_of_nat 140000 = ''140000''"
  by (simp add: dec_of_nat.simps)

lemma fixed6_literal: "fixed6 (13170115 * 2 ^ 127) = ''3.140000''"
  by (simp add: fixed6_def round_half_even_def Let_def zero_pad_def dec_3 dec_140000)

lemma printf_f_literal: "printf_f literal_3_14f = ''3.140000''"
  by (simp only: printf_f_def literal_fields literal_scaled fixed6_literal) simp

text \<open>
  Among the bit patterns with the sign bit clear, a larger pattern is a larger magnitude.
\<close>

lemma float_scaled_mono:
  fixes g h :: cxx_float
  assumes le: "unat g \<le> unat h" and pos: "unat h < 2 ^ 31"
  shows "float_scaled g \<le> float_scaled h"
proof -
  define eg where "eg = unat g div 2 ^ 23"
  define eh where "eh = unat h div 2 ^ 23"
  define mg where "mg = unat g mod 2 ^ 23"
  define mh where "mh = unat h mod 2 ^ 23"
  have g: "unat g = eg * 2 ^ 23 + mg" and h: "unat h = eh * 2 ^ 23 + mh"
    by (simp_all add: eg_def eh_def mg_def mh_def)
  have mg: "mg < 2 ^ 23" and mh: "mh < 2 ^ 23"
    by (simp_all add: mg_def mh_def)
  have ee: "eg \<le> eh"
    unfolding eg_def eh_def using le by (rule div_le_mono)
  have "eh < 256"
    unfolding eh_def using pos by (simp add: less_mult_imp_div_less)
  with ee have "eg < 256" by simp
  have Eg: "float_exponent g = eg" and Eh: "float_exponent h = eh"
    using \<open>eg < 256\<close> \<open>eh < 256\<close> by (simp_all add: float_exponent_def eg_def eh_def)
  have Fg: "float_fraction g = mg" and Fh: "float_fraction h = mh"
    by (simp_all add: float_fraction_def mg_def mh_def)
  show ?thesis
  proof (cases "eg = eh")
    case True
    with le g h have "mg \<le> mh" by simp
    with True show ?thesis
      by (simp add: float_scaled_def Eg Eh Fg Fh)
  next
    case False
    with ee have lt: "eg < eh" by simp
    have up: "float_scaled g < 2 ^ 23 * 2 ^ eg"
    proof (cases "eg = 0")
      case True
      with mg show ?thesis by (simp add: float_scaled_def Eg Fg)
    next
      case False
      then obtain k where k: "eg = Suc k" by (cases eg) auto
      have "(2 ^ 23 + mg) * 2 ^ k < (2 ^ 23 + 2 ^ 23) * 2 ^ k"
        using mg by simp
      then show ?thesis by (simp add: float_scaled_def Eg Fg k)
    qed
    from lt obtain j where j: "eh = Suc j" and "eg \<le> j" by (cases eh) auto
    have "(2::nat) ^ 23 * 2 ^ eg \<le> 2 ^ 23 * 2 ^ j"
      using \<open>eg \<le> j\<close> by simp
    also have "\<dots> \<le> (2 ^ 23 + mh) * 2 ^ j" by simp
    also have "\<dots> = float_scaled h" by (simp add: float_scaled_def Eh Fh j)
    finally show ?thesis using up by simp
  qed
qed

lemma scaled_below: "float_scaled (0x4048F5C2 :: cxx_float) = 13170114 * 2 ^ 127"
  by (simp add: float_scaled_def float_exponent_def float_fraction_def)

lemma scaled_above: "float_scaled (0x4048F5C4 :: cxx_float) = 13170116 * 2 ^ 127"
  by (simp add: float_scaled_def float_exponent_def float_fraction_def)

text \<open>No finite binary32 value is nearer to 3.14 than the literal's.\<close>

lemma literal_3_14f_nearest:
  assumes "float_finite g"
  shows "\<bar>float_value literal_3_14f - 314 / 100\<bar> \<le> \<bar>float_value g - 314 / 100\<bar>"
proof (cases "float_negative g")
  case True
  then have "float_value g \<le> 0" by (simp add: float_value_def)
  then show ?thesis by (simp add: literal_value)
next
  case False
  then have pos: "unat g < 2 ^ 31" by (simp add: float_negative_def)
  have val: "float_value g = of_nat (float_scaled g) / 2 ^ 149"
    using False by (simp add: float_value_def)
  consider "unat g \<le> unat (0x4048F5C2 :: cxx_float)" | "unat g = unat literal_3_14f"
    | "unat (0x4048F5C4 :: cxx_float) \<le> unat g"
    by (simp add: literal_3_14f_def) linarith
  then show ?thesis
  proof cases
    case 1
    then have "float_scaled g \<le> 13170114 * 2 ^ 127"
      using float_scaled_mono [of g "0x4048F5C2"] by (simp add: scaled_below)
    then have "(of_nat (float_scaled g) :: rat) \<le> of_nat (13170114 * 2 ^ 127)"
      by (simp only: of_nat_le_iff)
    then have "float_value g \<le> of_nat (13170114 * 2 ^ 127) / 2 ^ 149"
      unfolding val by (simp add: divide_right_mono)
    then have "float_value g \<le> 13170114 / 4194304" by simp
    then show ?thesis by (simp add: literal_value)
  next
    case 2
    then have "g = literal_3_14f" by (simp only: word_unat_eq_iff)
    then show ?thesis by simp
  next
    case 3
    then have "13170116 * 2 ^ 127 \<le> float_scaled g"
      using float_scaled_mono [of "0x4048F5C4" g] pos by (simp add: scaled_above)
    then have "(of_nat (13170116 * 2 ^ 127) :: rat) \<le> of_nat (float_scaled g)"
      by (simp only: of_nat_le_iff)
    then have "of_nat (13170116 * 2 ^ 127) / 2 ^ 149 \<le> float_value g"
      unfolding val by (simp add: divide_right_mono)
    then have "13170116 / 4194304 \<le> float_value g" by simp
    then show ?thesis by (simp add: literal_value)
  qed
qed

section \<open>The run of the program\<close>

lemma printf_d_16: "printf_d 16 = ''16''"
  by (simp add: printf_d_def dec_of_nat.simps)

lemma printf_d_32: "printf_d 32 = ''32''"
  by (simp add: printf_d_def dec_of_nat.simps)

lemma DataRenderer_visited: "visited DataRenderer_new x g = DataRenderer_new"
  by (cases x) (simp_all add: visited_def DataRenderer_new_def DataObjectVisitor_new_def)

lemma DataRenderer_written:
  "written DataRenderer_new (StringObj s) g = snd (DataRenderer_visit_StringObject s ())"
  "written DataRenderer_new (IntegerObj i) g = snd (DataRenderer_visit_IntegerObject i ())"
  "written DataRenderer_new (FloatObj f) g = snd (DataRenderer_visit_FloatObject f ())"
  by (simp_all add: written_def DataRenderer_new_def DataObjectVisitor_new_def plain_result)

lemma main_run:
  \<open>main initial_world =
     Inr (0, \<lparr>objects = [StringObj (StringObject_new ''Hello'' ''utf-8''),
                          IntegerObj (IntegerObject_new 16 32),
                          FloatObj (FloatObject_new literal_3_14f ''ieee-754'')],
              visitors = [DataRenderer_new],
              statics = (),
              stdout = ''String:     "Hello"  (utf-8)\<newline>'' @
                       ''Integer:    16  (32 bits)\<newline>'' @
                       ''Float:      3.140000  (ieee-754)\<newline>'',
              calls = [Entered_visit_StringObject 0 (StringObject_new ''Hello'' ''utf-8''),
                       Entered_visit_IntegerObject 0 (IntegerObject_new 16 32),
                       Entered_visit_FloatObject 0 (FloatObject_new literal_3_14f ''ieee-754'')]\<rparr>)\<close>
  by (simp add: main_def getObjects_def make_unique_def main_render_def new_visitor_def
      initial_world_def accept_plain plain_visitor_examples after_matching_visit_def
      DataRenderer_visited DataRenderer_written DataRenderer_visit_StringObject_def
      DataRenderer_visit_IntegerObject_def DataRenderer_visit_FloatObject_def
      getStringData_def getEncoding_def getIntValue_def getWidthBits_def getFloatValue_def
      getFloatType_def StringObject_new_def IntegerObject_new_def FloatObject_new_def
      printf_d_16 printf_d_32 printf_f_literal c_str_def)

lemmas output_reading =
  equivalent_output_def reading_def word_reading_def numeral_value_def is_digit_def
  nat_of_digits_def

section \<open>The dispatch\<close>

text \<open>
  C1. For every data object and every visitor, the object's \<open>accept\<close> called with the
  visitor enters exactly one visit function, exactly once, and it is the visitor's
  function for the object's own class: the log grows by the one matching entry, and the
  visitor, the statics and the output change as that function says. No visit function
  for another class is entered. This holds whether the visit function returns or throws;
  the call ends as the function ends, in \<open>Inr\<close> when it returns.
\<close>

theorem accept_enters_exactly_the_matching_visit:
  assumes "obj < length (objects w)" and "vis < length (visitors w)"
  shows "\<exists>w'. DataObject_accept obj vis w =
             finish (completion_of (visitors w ! vis) (objects w ! obj) (statics w)) w' \<and>
           calls w' = calls w @ [matching_entry vis (objects w ! obj)] \<and>
           visitors w' =
             (visitors w)[vis := visited (visitors w ! vis) (objects w ! obj) (statics w)] \<and>
           stdout w' = stdout w @ written (visitors w ! vis) (objects w ! obj) (statics w) \<and>
           statics w' = statics_left (visitors w ! vis) (objects w ! obj) (statics w)"
  using assms
  by (intro exI [of _ "after_matching_visit obj vis w"])
     (simp add: accept_live after_matching_visit_parts)

theorem accept_enters_exactly_the_matching_visit_witness:
  "0 < length (objects example_world) \<and> 0 < length (visitors example_world) \<and>
   (\<exists>w'. DataObject_accept 0 0 example_world = Inr w' \<and>
      calls w' = [Entered_visit_StringObject 0 (StringObject_new ''Hello'' ''utf-8'')] \<and>
      visitors w' = [StringCounter_new\<lparr>members := 1\<rparr>, StringCounter_new] \<and>
      stdout w' = [] \<and> statics w' = 0)"
  using accept_enters_exactly_the_matching_visit [of 0 example_world 0]
  by (simp add: example_world_def visited_def written_def statics_left_def completion_of_def
      StringCounter_new_def StringCounter_visit_StringObject_def DataObjectVisitor_new_def
      plain_result finish_cases)

text \<open>
  C2. For every data object and every visitor, the dispatch leaves the data objects as
  they were: every member of the accepting object (and of every other object) has the
  same value after the call as before it, whether the visit function returns or throws.
\<close>

theorem accept_leaves_objects_unchanged:
  assumes "obj < length (objects w)" and "vis < length (visitors w)"
  shows "\<exists>w'. DataObject_accept obj vis w =
             finish (completion_of (visitors w ! vis) (objects w ! obj) (statics w)) w' \<and>
           objects w' = objects w \<and> objects w' ! obj = objects w ! obj"
  using assms
  by (intro exI [of _ "after_matching_visit obj vis w"])
     (simp add: accept_live after_matching_visit_parts)

theorem accept_leaves_objects_unchanged_witness:
  "0 < length (objects example_world) \<and> 1 < length (visitors example_world) \<and>
   (\<exists>w'. DataObject_accept 0 1 example_world = Inr w' \<and>
      objects w' = objects example_world \<and>
      objects w' ! 0 = StringObj (StringObject_new ''Hello'' ''utf-8''))"
  using accept_leaves_objects_unchanged [of 0 example_world 1]
  by (simp add: example_world_def completion_of_def StringCounter_new_def
      DataObjectVisitor_new_def plain_result finish_cases)

text \<open>
  C4. If the class of a visitor does not override the visit function for a kind, the
  dispatch of an object of that kind through the visitor has no effect that the program
  can observe: the visitor's members, the output and the data objects are as before.
  The state after the call differs from the state before it in the observer's log only.
\<close>

theorem inherited_visit_has_no_effect:
  assumes "obj < length (objects w)" and "vis < length (visitors w)"
    and "kind_of (objects w ! obj) = K" and "\<not> overrides (visitors w ! vis) K"
  shows "\<exists>w'. DataObject_accept obj vis w = Inr w' \<and>
           visitors w' = visitors w \<and> stdout w' = stdout w \<and> objects w' = objects w \<and>
           w'\<lparr>calls := calls w\<rparr> = w"
  using assms
  by (auto simp add: accept_live after_matching_visit_def not_overridden_plain finish_cases)

theorem inherited_visit_has_no_effect_witness:
  "1 < length (objects example_world) \<and> 0 < length (visitors example_world) \<and>
   kind_of (objects example_world ! 1) = Integer_kind \<and>
   \<not> overrides (visitors example_world ! 0) Integer_kind \<and>
   (\<exists>w'. DataObject_accept 1 0 example_world = Inr w' \<and>
      visitors w' = visitors example_world \<and> stdout w' = stdout example_world \<and>
      objects w' = objects example_world \<and> w'\<lparr>calls := calls example_world\<rparr> = example_world)"
proof -
  have 1: "1 < length (objects example_world)" and 2: "0 < length (visitors example_world)"
    and 3: "kind_of (objects example_world ! 1) = Integer_kind"
    and 4: "\<not> overrides (visitors example_world ! 0) Integer_kind"
    by (simp_all add: example_world_def StringCounter_new_def DataObjectVisitor_new_def)
  from inherited_visit_has_no_effect [OF 1 2 3 4] 1 2 3 4 show ?thesis by blast
qed

text \<open>
  C6, as amended. For every live data object and every live visitor, the dispatch is one
  run of the matching visit function and ends as that run ends. It returns, in the state
  that the run leaves, exactly when the visit function returns; when the visit function
  throws, its exception leaves \<open>accept\<close>, from the state that the run leaves. The dispatch
  has no failure of its own. It returns for every visitor whose visit functions return
  and use only the visitor's members, such as the base class and the renderer, and for
  every visit function that a class inherits from the base class.
\<close>

theorem accept_ends_as_the_matching_visit_ends:
  assumes "obj < length (objects w)" and "vis < length (visitors w)"
  shows "DataObject_accept obj vis w =
           (case completion_of (visitors w ! vis) (objects w ! obj) (statics w) of
              Returns \<Rightarrow> Inr (after_matching_visit obj vis w)
            | Throws e \<Rightarrow> Inl (Thrown e (after_matching_visit obj vis w))) \<and>
         ((\<exists>w'. DataObject_accept obj vis w = Inr w') =
            (completion_of (visitors w ! vis) (objects w ! obj) (statics w) = Returns)) \<and>
         (plain_visitor (visitors w ! vis) \<longrightarrow>
            DataObject_accept obj vis w = Inr (after_matching_visit obj vis w)) \<and>
         (\<not> overrides (visitors w ! vis) (kind_of (objects w ! obj)) \<longrightarrow>
            DataObject_accept obj vis w = Inr (after_matching_visit obj vis w)) \<and>
         plain_visitor (DataObjectVisitor_new m) \<and> plain_visitor DataRenderer_new"
proof -
  have "DataObject_accept obj vis w =
      finish (completion_of (visitors w ! vis) (objects w ! obj) (statics w))
        (after_matching_visit obj vis w)"
    using assms by (rule accept_live)
  then show ?thesis
    using plain_visitor_completion [of "visitors w ! vis" "objects w ! obj" "statics w"]
      not_overridden_plain(4) [of "visitors w ! vis" "objects w ! obj" "statics w"]
      plain_visitor_examples(1) [of m] plain_visitor_examples(2)
    by (auto simp add: finish_def split: completion.splits)
qed

text \<open>
  The theorem at the string object and a string counter, whose visit function returns,
  and at the string object and a rejecter, whose visit function throws; the string counter
  inherits the visit function for integers.
\<close>

theorem accept_ends_as_the_matching_visit_ends_witness:
  "0 < length (objects example_world) \<and> 0 < length (visitors example_world) \<and>
   plain_visitor (visitors example_world ! 0) \<and>
   DataObject_accept 0 0 example_world =
     Inr (example_world
       \<lparr>visitors := [StringCounter_new\<lparr>members := 1\<rparr>, StringCounter_new],
        calls := [Entered_visit_StringObject 0 (StringObject_new ''Hello'' ''utf-8'')]\<rparr>) \<and>
   1 < length (objects example_world) \<and>
   \<not> overrides (visitors example_world ! 0) (kind_of (objects example_world ! 1)) \<and>
   DataObject_accept 1 0 example_world =
     Inr (example_world
       \<lparr>calls := [Entered_visit_IntegerObject 0 (IntegerObject_new 16 32)]\<rparr>) \<and>
   0 < length (objects rejecter_world) \<and> 0 < length (visitors rejecter_world) \<and>
   completion_of (visitors rejecter_world ! 0) (objects rejecter_world ! 0)
     (statics rejecter_world) = Throws ''strings are not accepted'' \<and>
   DataObject_accept 0 0 rejecter_world =
     Inl (Thrown ''strings are not accepted'' (rejecter_world
       \<lparr>calls := [Entered_visit_StringObject 0 (StringObject_new ''Hello'' ''utf-8'')]\<rparr>))"
proof -
  have 1: "0 < length (objects example_world)" and 2: "0 < length (visitors example_world)"
    and 3: "1 < length (objects example_world)"
    by (simp_all add: example_world_def)
  have 4: "plain_visitor (visitors example_world ! 0)"
    by (simp add: example_world_def plain_visitor_examples)
  have 5: "\<not> overrides (visitors example_world ! 0) (kind_of (objects example_world ! 1))"
    by (simp add: example_world_def StringCounter_new_def DataObjectVisitor_new_def)
  have 6: "0 < length (objects rejecter_world)" and 7: "0 < length (visitors rejecter_world)"
    by (simp_all add: rejecter_world_def)
  have 8: "completion_of (visitors rejecter_world ! 0) (objects rejecter_world ! 0)
      (statics rejecter_world) = Throws ''strings are not accepted''"
    by (simp add: rejecter_world_def completion_of_def Rejecter_new_def
        Rejecter_visit_StringObject_def DataObjectVisitor_new_def)
  have a: "after_matching_visit 0 0 example_world =
      example_world
        \<lparr>visitors := [StringCounter_new\<lparr>members := 1\<rparr>, StringCounter_new],
         calls := [Entered_visit_StringObject 0 (StringObject_new ''Hello'' ''utf-8'')]\<rparr>"
    by (simp add: after_matching_visit_def example_world_def visited_def written_def
        statics_left_def StringCounter_new_def StringCounter_visit_StringObject_def
        DataObjectVisitor_new_def plain_result)
  have b: "after_matching_visit 1 0 example_world =
      example_world\<lparr>calls := [Entered_visit_IntegerObject 0 (IntegerObject_new 16 32)]\<rparr>"
    by (simp add: after_matching_visit_def example_world_def visited_def written_def
        statics_left_def StringCounter_new_def DataObjectVisitor_visit_def
        DataObjectVisitor_new_def plain_result)
  have c: "after_matching_visit 0 0 rejecter_world =
      rejecter_world
        \<lparr>calls := [Entered_visit_StringObject 0 (StringObject_new ''Hello'' ''utf-8'')]\<rparr>"
    by (simp add: after_matching_visit_def rejecter_world_def visited_def written_def
        statics_left_def Rejecter_new_def Rejecter_visit_StringObject_def
        DataObjectVisitor_new_def)
  note s1 = accept_ends_as_the_matching_visit_ends [OF 1 2, where m = "()"]
  note s2 = accept_ends_as_the_matching_visit_ends [OF 3 2, where m = "()"]
  note s3 = accept_ends_as_the_matching_visit_ends [OF 6 7, where m = "()"]
  from s1 [THEN conjunct2, THEN conjunct2, THEN conjunct1] 4
  have A: "DataObject_accept 0 0 example_world = Inr (after_matching_visit 0 0 example_world)"
    by (rule mp)
  from s2 [THEN conjunct2, THEN conjunct2, THEN conjunct2, THEN conjunct1] 5
  have B: "DataObject_accept 1 0 example_world = Inr (after_matching_visit 1 0 example_world)"
    by (rule mp)
  from s3 [THEN conjunct1]
  have C: "DataObject_accept 0 0 rejecter_world =
      Inl (Thrown ''strings are not accepted'' (after_matching_visit 0 0 rejecter_world))"
    unfolding 8 by simp
  from 1 2 3 4 5 6 7 8 A B C show ?thesis
    unfolding a b c by blast
qed

text \<open>
  C6, as stated, promises that the dispatch raises no exception for every well-typed
  pair. \<open>accept\<close> catches nothing: dispatching the string object through a rejecter, a
  visitor derived from the base class whose visit function for strings throws, ends with
  that exception.
\<close>

theorem exception_of_a_visit_leaves_accept:
  "0 < length (objects rejecter_world) \<and> 0 < length (visitors rejecter_world) \<and>
   objects rejecter_world ! 0 = StringObj (StringObject_new ''Hello'' ''utf-8'') \<and>
   visitors rejecter_world ! 0 = Rejecter_new \<and>
   DataObject_accept 0 0 rejecter_world =
     Inl (Thrown ''strings are not accepted'' (rejecter_world
       \<lparr>calls := [Entered_visit_StringObject 0 (StringObject_new ''Hello'' ''utf-8'')]\<rparr>))"
  by (simp add: rejecter_world_def DataObject_accept_def StringObject_accept_def
      virtual_visit_StringObject_def call_visit_def Let_def finish_def Rejecter_new_def
      Rejecter_visit_StringObject_def DataObjectVisitor_new_def)

section \<open>Sequences of objects\<close>

text \<open>
  C5, as amended. Let \<open>a\<close> and \<open>b\<close> be two visitor instances of the same class,
  constructed alike, of a class whose visit functions return and use only the visitor's
  own members (as those of the base class and of the renderer do), and let the same
  sequence of objects be dispatched first through \<open>a\<close> and then through \<open>b\<close>. Each run
  enters the matching visit function for every object, in order. Both runs write the same
  text, and \<open>a\<close> after its run is what \<open>b\<close> is after its run. The run through \<open>a\<close> does
  not change \<open>b\<close>, the run through \<open>b\<close> does not change \<open>a\<close>, and the run through \<open>b\<close>
  ends as it would have ended without the run through \<open>a\<close> before it.
\<close>

theorem plain_visitor_instances_are_independent:
  assumes "a < length (visitors w)" and "b < length (visitors w)" and "a \<noteq> b"
    and "visitors w ! a = visitors w ! b"
    and "plain_visitor (visitors w ! a)"
    and "set ptrs \<subseteq> {..<length (objects w)}"
  shows "\<exists>w1 w2 w2' txt.
           accept_each ptrs a w = Inr w1 \<and> accept_each ptrs b w1 = Inr w2 \<and>
           accept_each ptrs b w = Inr w2' \<and>
           txt = written_all (visitors w ! a) (pointees w ptrs) (statics w) \<and>
           stdout w1 = stdout w @ txt \<and> stdout w2 = stdout w1 @ txt \<and>
           stdout w2' = stdout w @ txt \<and>
           visitors w1 ! a = visited_all (visitors w ! a) (pointees w ptrs) (statics w) \<and>
           visitors w1 ! a = visitors w2 ! b \<and>
           visitors w1 ! b = visitors w ! b \<and>
           visitors w2 ! a = visitors w1 ! a \<and>
           visitors w2' ! b = visitors w2 ! b \<and>
           calls w1 = calls w @ map (\<lambda>p. matching_entry a (objects w ! p)) ptrs \<and>
           calls w2 = calls w1 @ map (\<lambda>p. matching_entry b (objects w ! p)) ptrs \<and>
           statics w2 = statics w \<and> objects w2 = objects w"
  using assms by (simp add: accept_each_plain pointees_def)

theorem plain_visitor_instances_are_independent_witness:
  "0 < length (visitors example_world) \<and> 1 < length (visitors example_world) \<and>
   (0::nat) \<noteq> 1 \<and> visitors example_world ! 0 = visitors example_world ! 1 \<and>
   plain_visitor (visitors example_world ! 0) \<and>
   set [0, 1, 2, 0] \<subseteq> {..<length (objects example_world)} \<and>
   (\<exists>w1 w2 w2' txt.
      accept_each [0, 1, 2, 0] 0 example_world = Inr w1 \<and>
      accept_each [0, 1, 2, 0] 1 w1 = Inr w2 \<and>
      accept_each [0, 1, 2, 0] 1 example_world = Inr w2' \<and>
      txt = written_all (visitors example_world ! 0)
              (pointees example_world [0, 1, 2, 0]) (statics example_world) \<and>
      stdout w1 = stdout example_world @ txt \<and> stdout w2 = stdout w1 @ txt \<and>
      stdout w2' = stdout example_world @ txt \<and>
      visitors w1 ! 0 = visited_all (visitors example_world ! 0)
              (pointees example_world [0, 1, 2, 0]) (statics example_world) \<and>
      visitors w1 ! 0 = visitors w2 ! 1 \<and>
      visitors w1 ! 1 = visitors example_world ! 1 \<and>
      visitors w2 ! 0 = visitors w1 ! 0 \<and>
      visitors w2' ! 1 = visitors w2 ! 1 \<and>
      calls w1 = calls example_world @
        map (\<lambda>p. matching_entry 0 (objects example_world ! p)) [0, 1, 2, 0] \<and>
      calls w2 = calls w1 @
        map (\<lambda>p. matching_entry 1 (objects example_world ! p)) [0, 1, 2, 0] \<and>
      statics w2 = statics example_world \<and> objects w2 = objects example_world) \<and>
   visited_all (visitors example_world ! 0) (pointees example_world [0, 1, 2, 0])
     (statics example_world) = StringCounter_new\<lparr>members := 2\<rparr> \<and>
   plain_visitor DataRenderer_new \<and> plain_visitor (DataObjectVisitor_new () :: (unit, unit) DataObjectVisitor)"
proof -
  have 1: "0 < length (visitors example_world)" and 2: "1 < length (visitors example_world)"
    and 3: "(0::nat) \<noteq> 1" and 4: "visitors example_world ! 0 = visitors example_world ! 1"
    and 6: "set [0, 1, 2, 0] \<subseteq> {..<length (objects example_world)}"
    by (simp_all add: example_world_def)
  have 5: "plain_visitor (visitors example_world ! 0)"
    by (simp add: example_world_def plain_visitor_examples)
  have 7: "visited_all (visitors example_world ! 0) (pointees example_world [0, 1, 2, 0])
      (statics example_world) = StringCounter_new\<lparr>members := 2\<rparr>"
    by (simp add: example_world_def pointees_def visited_def statics_left_def
        StringCounter_new_def StringCounter_visit_StringObject_def DataObjectVisitor_visit_def
        DataObjectVisitor_new_def plain_result)
  from plain_visitor_instances_are_independent [OF 1 2 3 4 5 6] 1 2 3 4 5 6 7
    plain_visitor_examples(2) plain_visitor_examples(1) [of "()"]
  show ?thesis by blast
qed

text \<open>
  C5, as stated, speaks of every operation and denies that instances share mutable state.
  A derived class can have a static data member. Two instances of the shared counter,
  constructed alike, are given the same one string object: the run through the first
  writes \<open>1\<close>, the run through the second after it writes \<open>2\<close>, and the run through the
  second alone would have written \<open>1\<close>.
\<close>

theorem shared_static_couples_the_instances:
  "visitors shared_counter_world ! 0 = visitors shared_counter_world ! 1 \<and>
   accept_each [0] 0 shared_counter_world =
     Inr (shared_counter_world
       \<lparr>statics := 1, stdout := ''1\<newline>'',
        calls := [Entered_visit_StringObject 0 (StringObject_new ''Hello'' ''utf-8'')]\<rparr>) \<and>
   accept_each [0] 1
     (shared_counter_world
       \<lparr>statics := 1, stdout := ''1\<newline>'',
        calls := [Entered_visit_StringObject 0 (StringObject_new ''Hello'' ''utf-8'')]\<rparr>) =
     Inr (shared_counter_world
       \<lparr>statics := 2, stdout := ''1\<newline>'' @ ''2\<newline>'',
        calls := [Entered_visit_StringObject 0 (StringObject_new ''Hello'' ''utf-8''),
                  Entered_visit_StringObject 1 (StringObject_new ''Hello'' ''utf-8'')]\<rparr>) \<and>
   accept_each [0] 1 shared_counter_world =
     Inr (shared_counter_world
       \<lparr>statics := 1, stdout := ''1\<newline>'',
        calls := [Entered_visit_StringObject 1 (StringObject_new ''Hello'' ''utf-8'')]\<rparr>)"
  by (simp add: shared_counter_world_def DataObject_accept_def StringObject_accept_def
      virtual_visit_StringObject_def call_visit_def Let_def finish_def SharedCounter_new_def
      SharedCounter_visit_StringObject_def DataObjectVisitor_new_def dec_of_nat.simps)

text \<open>
  C7. The loop over an empty container, with any visitor, enters no visit function and
  ends without an error, in the state it started in; the driver on an empty container
  declares its renderer, writes nothing and returns 0.
\<close>

theorem empty_container_enters_no_visit:
  "accept_each [] vis w = Inr w \<and>
   main_render [] u = Inr (0, u\<lparr>visitors := visitors u @ [DataRenderer_new]\<rparr>)"
  by (simp add: main_render_def new_visitor_def)

section \<open>The objects of the program and their rendering\<close>

text \<open>
  C9. In every state, \<open>getObjects\<close> returns a container of exactly three pointers, to
  three new objects that are, in this order, \<open>StringObject("Hello", "utf-8")\<close>,
  \<open>IntegerObject(16, 32)\<close> and \<open>FloatObject(3.14f, "ieee-754")\<close>; nothing else of the
  state changes. The objects do not depend on the state, so every call returns the same.
\<close>

theorem getObjects_returns_the_three_objects:
  "length (fst (getObjects w)) = 3 \<and>
   fst (getObjects w) = [length (objects w), length (objects w) + 1, length (objects w) + 2] \<and>
   pointees (snd (getObjects w)) (fst (getObjects w)) =
     [StringObj (StringObject_new ''Hello'' ''utf-8''),
      IntegerObj (IntegerObject_new 16 32),
      FloatObj (FloatObject_new literal_3_14f ''ieee-754'')] \<and>
   snd (getObjects w) =
     w\<lparr>objects := objects w @ pointees (snd (getObjects w)) (fst (getObjects w))\<rparr> \<and>
   pointees (snd (getObjects (snd (getObjects w)))) (fst (getObjects (snd (getObjects w)))) =
     pointees (snd (getObjects w)) (fst (getObjects w))"
  by (simp add: getObjects_def make_unique_def pointees_def nth_append)

text \<open>
  C3. The program, started with nothing allocated and nothing written, constructs the
  string object ("Hello", "utf-8"), the integer object (16, 32) and the float object
  (3.14, "ieee-754"), dispatches each through the renderer and returns 0. The renderer's
  three visit functions are entered in this order, and the three lines written are
  equivalent, in this order, to \<open>String: "Hello" (utf-8)\<close>, \<open>Integer: 16 (32 bits)\<close> and
  \<open>Float: 3.14 (ieee-754)\<close>. The text itself has the padding of the format strings and
  six digits after the point of the float.
\<close>

theorem main_renders_the_three_objects:
  \<open>\<exists>w. main initial_world = Inr (0, w) \<and>
     calls w = [Entered_visit_StringObject 0 (StringObject_new ''Hello'' ''utf-8''),
                Entered_visit_IntegerObject 0 (IntegerObject_new 16 32),
                Entered_visit_FloatObject 0 (FloatObject_new literal_3_14f ''ieee-754'')] \<and>
     stdout w = ''String:     "Hello"  (utf-8)\<newline>'' @
                ''Integer:    16  (32 bits)\<newline>'' @
                ''Float:      3.140000  (ieee-754)\<newline>'' \<and>
     equivalent_output ''String:     "Hello"  (utf-8)\<newline>'' ''String: "Hello" (utf-8)'' \<and>
     equivalent_output ''Integer:    16  (32 bits)\<newline>'' ''Integer: 16 (32 bits)'' \<and>
     equivalent_output ''Float:      3.140000  (ieee-754)\<newline>'' ''Float: 3.14 (ieee-754)''\<close>
  by (simp add: main_run output_reading)

text \<open>
  C10, as amended. A float object keeps its value in single precision. The constructor's
  parameter is a \<open>float\<close>, so every argument reaches it as a binary32 value (an argument
  of another type is rounded to one by the call); \<open>getFloatValue\<close> returns exactly that
  value, and the float visit function is entered, and run, with an object that holds it.
  The one
  argument in the program, \<open>3.14f\<close>, is the binary32 value nearest to 3.14. The renderer
  writes the value with \<open>%f\<close>: for a finite value an optional sign, the integer digits,
  a point and exactly six fractional digits, for the program's object \<open>3.140000\<close>; for
  an infinity or a NaN an optional sign and \<open>inf\<close> or \<open>nan\<close>, with no digits.
\<close>

theorem FloatObject_value_is_binary32_rendered_by_printf_f:
  "getFloatValue (FloatObject_new f t) = f \<and>
   (vis < length (visitors w) \<longrightarrow>
      (\<exists>w'. FloatObject_accept (FloatObject_new f t) vis w =
           finish (completion_of (visitors w ! vis) (FloatObj (FloatObject_new f t)) (statics w)) w' \<and>
         (\<exists>d. calls w' = calls w @ [Entered_visit_FloatObject vis d] \<and> getFloatValue d = f) \<and>
         visitors w' = (visitors w)[vis :=
           visited (visitors w ! vis) (FloatObj (FloatObject_new f t)) (statics w)] \<and>
         stdout w' = stdout w @
           written (visitors w ! vis) (FloatObj (FloatObject_new f t)) (statics w))) \<and>
   visit_FloatObject DataRenderer_new = plain DataRenderer_visit_FloatObject \<and>
   DataRenderer_visit_FloatObject (FloatObject_new f t) m =
     (m, ''Float:      '' @ printf_f f @ ''  ('' @ c_str t @ '')\<newline>'') \<and>
   (float_finite f \<longrightarrow>
      (\<exists>ip fr. printf_f f = (if float_negative f then ''-'' else []) @ ip @ ''.'' @ fr \<and>
         ip \<noteq> [] \<and> length fr = 6 \<and> list_all is_digit ip \<and> list_all is_digit fr)) \<and>
   (\<not> float_finite f \<longrightarrow>
      printf_f f = (if float_negative f then ''-'' else []) @
                   (if float_fraction f = 0 then ''inf'' else ''nan'')) \<and>
   (float_finite g \<longrightarrow>
      \<bar>float_value literal_3_14f - 314 / 100\<bar> \<le> \<bar>float_value g - 314 / 100\<bar>) \<and>
   float_value literal_3_14f = 13170115 / 4194304 \<and>
   printf_f literal_3_14f = ''3.140000''"
proof -
  have "getFloatValue (FloatObject_new f t) = f"
    by (simp add: getFloatValue_def FloatObject_new_def)
  moreover have "vis < length (visitors w) \<longrightarrow>
      (\<exists>w'. FloatObject_accept (FloatObject_new f t) vis w =
           finish (completion_of (visitors w ! vis) (FloatObj (FloatObject_new f t)) (statics w)) w' \<and>
         (\<exists>d. calls w' = calls w @ [Entered_visit_FloatObject vis d] \<and> getFloatValue d = f) \<and>
         visitors w' = (visitors w)[vis :=
           visited (visitors w ! vis) (FloatObj (FloatObject_new f t)) (statics w)] \<and>
         stdout w' = stdout w @
           written (visitors w ! vis) (FloatObj (FloatObject_new f t)) (statics w))"
  proof
    assume live: "vis < length (visitors w)"
    let ?x = "FloatObj (FloatObject_new f t)"
    let ?w = "w\<lparr>visitors := (visitors w)[vis := visited (visitors w ! vis) ?x (statics w)],
                statics := statics_left (visitors w ! vis) ?x (statics w),
                stdout := stdout w @ written (visitors w ! vis) ?x (statics w),
                calls := calls w @ [Entered_visit_FloatObject vis (FloatObject_new f t)]\<rparr>"
    have "FloatObject_accept (FloatObject_new f t) vis w =
        finish (completion_of (visitors w ! vis) ?x (statics w)) ?w"
      using live
      by (simp add: FloatObject_accept_def virtual_visit_FloatObject_def call_visit_live
          completion_of_def visited_def written_def statics_left_def)
    moreover have "getFloatValue (FloatObject_new f t) = f"
      by (simp add: getFloatValue_def FloatObject_new_def)
    ultimately show "\<exists>w'. FloatObject_accept (FloatObject_new f t) vis w =
           finish (completion_of (visitors w ! vis) ?x (statics w)) w' \<and>
         (\<exists>d. calls w' = calls w @ [Entered_visit_FloatObject vis d] \<and> getFloatValue d = f) \<and>
         visitors w' = (visitors w)[vis := visited (visitors w ! vis) ?x (statics w)] \<and>
         stdout w' = stdout w @ written (visitors w ! vis) ?x (statics w)"
      by (intro exI [of _ ?w]) simp
  qed
  moreover have "visit_FloatObject DataRenderer_new = plain DataRenderer_visit_FloatObject"
    by (simp add: DataRenderer_new_def)
  moreover have "DataRenderer_visit_FloatObject (FloatObject_new f t) m =
     (m, ''Float:      '' @ printf_f f @ ''  ('' @ c_str t @ '')\<newline>'')"
    by (simp add: DataRenderer_visit_FloatObject_def getFloatValue_def getFloatType_def
        FloatObject_new_def)
  moreover have "\<not> float_finite f \<longrightarrow>
      printf_f f = (if float_negative f then ''-'' else []) @
                   (if float_fraction f = 0 then ''inf'' else ''nan'')"
    by (simp add: printf_f_def)
  ultimately show ?thesis
    using printf_f_finite_shape [of f] literal_3_14f_nearest [of g] literal_value
      printf_f_literal
    by blast
qed

text \<open>
  The theorem at the program's float object and at an object that holds minus infinity,
  with the value of the literal compared to the binary32 value nearest to pi.
\<close>

theorem FloatObject_value_is_binary32_rendered_by_printf_f_witness:
  "getFloatValue (FloatObject_new literal_3_14f ''ieee-754'') = literal_3_14f \<and>
   0 < length (visitors example_world) \<and>
   (\<exists>w'. FloatObject_accept (FloatObject_new literal_3_14f ''ieee-754'') 0 example_world = Inr w' \<and>
      (\<exists>d. calls w' = calls example_world @ [Entered_visit_FloatObject 0 d] \<and>
         getFloatValue d = literal_3_14f)) \<and>
   float_finite literal_3_14f \<and>
   (\<exists>ip fr. printf_f literal_3_14f =
        (if float_negative literal_3_14f then ''-'' else []) @ ip @ ''.'' @ fr \<and>
      ip \<noteq> [] \<and> length fr = 6 \<and> list_all is_digit ip \<and> list_all is_digit fr) \<and>
   \<not> float_finite (0xFF800000 :: cxx_float) \<and>
   printf_f (0xFF800000 :: cxx_float) = ''-inf'' \<and>
   float_finite (0x40490FDB :: cxx_float) \<and>
   \<bar>float_value literal_3_14f - 314 / 100\<bar> \<le> \<bar>float_value (0x40490FDB :: cxx_float) - 314 / 100\<bar>"
proof -
  have 1: "0 < length (visitors example_world)"
    by (simp add: example_world_def)
  have 2: "float_finite literal_3_14f"
    by (rule literal_fields)
  have 3: "float_finite (0x40490FDB :: cxx_float)"
    by (simp add: float_finite_def float_exponent_def)
  have 4: "\<not> float_finite (0xFF800000 :: cxx_float)"
    by (simp add: float_finite_def float_exponent_def)
  have 5: "float_negative (0xFF800000 :: cxx_float)" "float_fraction (0xFF800000 :: cxx_float) = 0"
    by (simp_all add: float_negative_def float_fraction_def)
  from 4 5
    FloatObject_value_is_binary32_rendered_by_printf_f
      [of "0xFF800000" "''ieee-754''" 0 example_world "()" "0x40490FDB"]
  have 6: "printf_f (0xFF800000 :: cxx_float) = ''-inf''"
    by simp
  have 7: "completion_of (visitors example_world ! 0)
      (FloatObj (FloatObject_new literal_3_14f ''ieee-754'')) (statics example_world) = Returns"
    by (simp add: example_world_def plain_visitor_completion plain_visitor_examples)
  from 1 2 3 4 6
    FloatObject_value_is_binary32_rendered_by_printf_f
      [of literal_3_14f "''ieee-754''" 0 example_world "()" "0x40490FDB"]
  show ?thesis unfolding 7 finish_cases by blast
qed

text \<open>
  C10, as stated, promises six fractional digits for every constructor argument. A
  \<open>float\<close> can be an infinity: the renderer writes the object that holds plus infinity
  (bit pattern \<open>0x7F800000\<close>) as \<open>inf\<close>, and no point or digit is in that text.
\<close>

theorem FloatObject_infinity_is_rendered_without_digits:
  "getFloatValue (FloatObject_new 0x7F800000 ''ieee-754'') = 0x7F800000 \<and>
   DataRenderer_visit_FloatObject (FloatObject_new 0x7F800000 ''ieee-754'') () =
     ((), ''Float:      inf  (ieee-754)\<newline>'') \<and>
   printf_f 0x7F800000 = ''inf'' \<and>
   CHR ''.'' \<notin> set (printf_f 0x7F800000)"
  by (simp add: DataRenderer_visit_FloatObject_def getFloatValue_def getFloatType_def
      FloatObject_new_def printf_f_def float_finite_def float_exponent_def
      float_negative_def float_fraction_def c_str_def)

text \<open>
  C8. Each accessor of an object returns the constructor argument of its member:
  \<open>getStringData\<close> and \<open>getEncoding\<close> of \<open>StringObject(s, e)\<close> return \<open>s\<close> and \<open>e\<close>,
  \<open>getIntValue\<close> and \<open>getWidthBits\<close> of \<open>IntegerObject(i, w)\<close> return \<open>i\<close> and \<open>w\<close>,
  \<open>getFloatValue\<close> and \<open>getFloatType\<close> of \<open>FloatObject(f, t)\<close> return \<open>f\<close> and \<open>t\<close>.
\<close>

theorem constructor_accessor_roundtrip:
  "getStringData (StringObject_new s e) = s \<and> getEncoding (StringObject_new s e) = e \<and>
   getIntValue (IntegerObject_new i w) = i \<and> getWidthBits (IntegerObject_new i w) = w \<and>
   getFloatValue (FloatObject_new f t) = f \<and> getFloatType (FloatObject_new f t) = t"
  by (simp add: getStringData_def getEncoding_def getIntValue_def getWidthBits_def
      getFloatValue_def getFloatType_def StringObject_new_def IntegerObject_new_def
      FloatObject_new_def)

end
